theory Spec2Isabelle
  imports Complex_Main "HOL-Library.Monad_Syntax" "HOL-Library.AList"
begin

section \<open>Toy Store API: data model\<close>

text \<open>
  The backend of \<^verbatim>\<open>src/main.py\<close> and \<^verbatim>\<open>src/schemas.py\<close>: route handlers over two
  document collections, \<^verbatim>\<open>toy\<close> and \<^verbatim>\<open>order\<close>. Handlers are modelled as functions from
  the global store handle \<^verbatim>\<open>db\<close> and the request to an outcome and the store handle
  afterwards. Every \<^verbatim>\<open>raise\<close> of the source is a value of \<open>error\<close>.
\<close>

subsection \<open>Floats\<close>

text \<open>
  A Python \<^verbatim>\<open>float\<close> as the schemas constrain it: a finite value (by its exact value), an
  infinity or NaN. The constraints \<^verbatim>\<open>ge=0\<close> and \<^verbatim>\<open>le=5\<close> are Python comparisons, which
  NaN fails.
\<close>

datatype pyfloat = Finite real | PosInf | NegInf | NaN

fun ge0 :: "pyfloat \<Rightarrow> bool" where
  "ge0 (Finite r) = (0 \<le> r)"
| "ge0 PosInf = True"
| "ge0 NegInf = False"
| "ge0 NaN = False"

fun le5 :: "pyfloat \<Rightarrow> bool" where
  "le5 (Finite r) = (r \<le> 5)"
| "le5 PosInf = False"
| "le5 NegInf = True"
| "le5 NaN = False"

fun negative :: "pyfloat \<Rightarrow> bool" where
  "negative (Finite r) = (r < 0)"
| "negative PosInf = False"
| "negative NegInf = True"
| "negative NaN = False"

subsection \<open>Errors and HTTP status\<close>

text \<open>
  \<open>RequestValidationError\<close>: the request body does not fit the handler's parameter model
  (\<^verbatim>\<open>CreateToy\<close>, \<^verbatim>\<open>CreateOrder\<close>); the framework raises it before the handler runs.
  \<open>HTTPException\<close>: raised by the handlers with a status code and a detail.
  \<open>ValidationError\<close>: raised by the schema constructors \<^verbatim>\<open>Toy(...)\<close> and \<^verbatim>\<open>Order(...)\<close>
  inside a handler; no handler catches it.
  \<open>StoreError\<close>: an exception of the store client (a failed insert, a rejected query).
\<close>

datatype error =
    RequestValidationError
  | HTTPException nat string
  | ValidationError
  | StoreError

text \<open>
  The status the framework answers with: 422 for a request validation error, the given
  code for an \<^verbatim>\<open>HTTPException\<close>, 500 for any exception that leaves a handler uncaught.
\<close>

fun status_code :: "error \<Rightarrow> nat" where
  "status_code RequestValidationError = 422"
| "status_code (HTTPException code detail) = code"
| "status_code ValidationError = 500"
| "status_code StoreError = 500"

subsection \<open>Request bodies\<close>

text \<open>
  One key of a JSON object, as a field validator sees it: the key is absent, it is
  \<^verbatim>\<open>null\<close>, it holds a value the declared type rejects, or it holds a value the declared
  type accepts (with the typed value). A validator returns \<open>None\<close> when it rejects.
\<close>

datatype 'a field = Absent | Null | Bad | Val 'a

text \<open>\<^verbatim>\<open>x: T\<close>, or \<^verbatim>\<open>x: T = Field(...)\<close>: required.\<close>

fun required :: "'a field \<Rightarrow> 'a option" where
  "required (Val v) = Some v"
| "required Absent = None"
| "required Null = None"
| "required Bad = None"

text \<open>\<^verbatim>\<open>x: T = d\<close>.\<close>

fun with_default :: "'a \<Rightarrow> 'a field \<Rightarrow> 'a option" where
  "with_default d (Val v) = Some v"
| "with_default d Absent = Some d"
| "with_default d Null = None"
| "with_default d Bad = None"

text \<open>\<^verbatim>\<open>x: Optional[T] = d\<close>.\<close>

fun optional :: "'a option \<Rightarrow> 'a field \<Rightarrow> 'a option option" where
  "optional d (Val v) = Some (Some v)"
| "optional d Absent = Some d"
| "optional d Null = Some None"
| "optional d Bad = None"

subsection \<open>Toys\<close>

text \<open>
  \<^verbatim>\<open>CreateToy\<close> (main.py) and \<^verbatim>\<open>Toy\<close> (schemas.py) declare the same fields with the same
  types; \<^verbatim>\<open>Toy\<close> adds the range constraints. The field \<^verbatim>\<open>image\<close> is \<open>image_url\<close> here.
\<close>

record toy_data =
  name :: string
  description :: "string option"
  price :: pyfloat
  category :: string
  image_url :: "string option"
  rating :: "pyfloat option"
  in_stock :: bool

record toy_body =
  body_name :: "string field"
  body_description :: "string field"
  body_price :: "pyfloat field"
  body_category :: "string field"
  body_image :: "string field"
  body_rating :: "pyfloat field"
  body_in_stock :: "bool field"

text \<open>The framework's validation of a request body against \<^verbatim>\<open>CreateToy\<close>.\<close>

definition CreateToy :: "toy_body \<Rightarrow> toy_data option" where
  "CreateToy b = do {
     n \<leftarrow> required (body_name b);
     d \<leftarrow> optional None (body_description b);
     p \<leftarrow> required (body_price b);
     c \<leftarrow> required (body_category b);
     i \<leftarrow> optional None (body_image b);
     r \<leftarrow> optional (Some (Finite 4.5)) (body_rating b);
     s \<leftarrow> with_default True (body_in_stock b);
     Some \<lparr>name = n, description = d, price = p, category = c, image_url = i,
           rating = r, in_stock = s\<rparr>
   }"

text \<open>
  \<^verbatim>\<open>Toy(**payload.model_dump())\<close>: the fields are typed already, so the constructor
  checks \<^verbatim>\<open>price\<close> (\<^verbatim>\<open>ge=0\<close>) and \<^verbatim>\<open>rating\<close> (\<^verbatim>\<open>ge=0, le=5\<close>, when not \<^verbatim>\<open>None\<close>). The
  field \<^verbatim>\<open>name\<close> has no length constraint.
\<close>

definition Toy :: "toy_data \<Rightarrow> error + toy_data" where
  "Toy p =
    (if ge0 (price p) \<and> (case rating p of None \<Rightarrow> True | Some r \<Rightarrow> ge0 r \<and> le5 r)
     then Inr p else Inl ValidationError)"

subsection \<open>Orders\<close>

text \<open>
  \<^verbatim>\<open>OrderItem\<close> (schemas.py); its fields \<^verbatim>\<open>name\<close>, \<^verbatim>\<open>price\<close> and \<^verbatim>\<open>image\<close> are
  \<open>item_name\<close>, \<open>item_price\<close> and \<open>item_image\<close> here. An element of
  \<^verbatim>\<open>CreateOrder.items\<close> is any \<^verbatim>\<open>dict\<close>: \<open>item_dict\<close> gives the keys the schema reads.
\<close>

record order_item =
  toy_id :: string
  item_name :: string
  item_price :: pyfloat
  quantity :: int
  item_image :: "string option"

record item_dict =
  dict_toy_id :: "string field"
  dict_name :: "string field"
  dict_price :: "pyfloat field"
  dict_quantity :: "int field"
  dict_image :: "string field"

text \<open>\<^verbatim>\<open>price\<close>: \<^verbatim>\<open>ge=0\<close>; \<^verbatim>\<open>quantity\<close>: \<^verbatim>\<open>ge=1\<close>.\<close>

definition OrderItem :: "item_dict \<Rightarrow> order_item option" where
  "OrderItem d = do {
     t \<leftarrow> required (dict_toy_id d);
     n \<leftarrow> required (dict_name d);
     p \<leftarrow> required (dict_price d);
     q \<leftarrow> required (dict_quantity d);
     i \<leftarrow> optional None (dict_image d);
     if ge0 p \<and> 1 \<le> q
     then Some \<lparr>toy_id = t, item_name = n, item_price = p, quantity = q, item_image = i\<rparr>
     else None
   }"

text \<open>
  \<^verbatim>\<open>CreateOrder\<close> (main.py) and \<^verbatim>\<open>Order\<close> (schemas.py) declare the same fields; they
  differ in the type of the items (\<^verbatim>\<open>List[dict]\<close>, \<^verbatim>\<open>List[OrderItem]\<close>) and in the
  constraints. The fields \<^verbatim>\<open>total\<close> and \<^verbatim>\<open>notes\<close> are \<open>total_due\<close> and \<open>order_notes\<close>
  here.
\<close>

record 'i order_data =
  customer_name :: string
  customer_email :: string
  customer_address :: string
  items :: "'i list"
  subtotal :: pyfloat
  shipping :: pyfloat
  total_due :: pyfloat
  order_notes :: "string option"

record order_body =
  body_customer_name :: "string field"
  body_customer_email :: "string field"
  body_customer_address :: "string field"
  body_items :: "item_dict list field"
  body_subtotal :: "pyfloat field"
  body_shipping :: "pyfloat field"
  body_total :: "pyfloat field"
  body_notes :: "string field"

text \<open>The framework's validation of a request body against \<^verbatim>\<open>CreateOrder\<close>.\<close>

definition CreateOrder :: "order_body \<Rightarrow> item_dict order_data option" where
  "CreateOrder b = do {
     n \<leftarrow> required (body_customer_name b);
     e \<leftarrow> required (body_customer_email b);
     a \<leftarrow> required (body_customer_address b);
     its \<leftarrow> required (body_items b);
     sub \<leftarrow> required (body_subtotal b);
     sh \<leftarrow> with_default (Finite 0) (body_shipping b);
     tot \<leftarrow> required (body_total b);
     nt \<leftarrow> optional None (body_notes b);
     Some \<lparr>customer_name = n, customer_email = e, customer_address = a, items = its,
           subtotal = sub, shipping = sh, total_due = tot, order_notes = nt\<rparr>
   }"

text \<open>
  \<^verbatim>\<open>Order(**payload.model_dump())\<close>. \<open>EmailStr\<close> is the validator of the type
  \<^verbatim>\<open>pydantic.EmailStr\<close>, a parameter: it rejects a string or returns the address it
  accepts. Every item is validated as an \<^verbatim>\<open>OrderItem\<close>; \<^verbatim>\<open>subtotal\<close>, \<^verbatim>\<open>shipping\<close> and
  \<^verbatim>\<open>total\<close> are each \<^verbatim>\<open>ge=0\<close>, and nothing relates them.
\<close>

definition Order ::
  "(string \<Rightarrow> string option) \<Rightarrow> item_dict order_data \<Rightarrow> error + order_item order_data" where
  "Order EmailStr p =
    (case EmailStr (customer_email p) of
       None \<Rightarrow> Inl ValidationError
     | Some e \<Rightarrow>
        (case those (map OrderItem (items p)) of
           None \<Rightarrow> Inl ValidationError
         | Some its \<Rightarrow>
            if ge0 (subtotal p) \<and> ge0 (shipping p) \<and> ge0 (total_due p)
            then Inr \<lparr>customer_name = customer_name p, customer_email = e,
                      customer_address = customer_address p, items = its,
                      subtotal = subtotal p, shipping = shipping p,
                      total_due = total_due p, order_notes = order_notes p\<rparr>
            else Inl ValidationError))"

section \<open>The document store\<close>

subsection \<open>Identifiers\<close>

text \<open>
  A store identifier is a byte string, twelve bytes when the store generates it, kept
  here as the hexadecimal digits of its bytes in lower case, which is what \<^verbatim>\<open>str\<close> of an
  identifier writes.
\<close>

datatype object_id = Oid string

definition lower :: "char \<Rightarrow> char" where
  "lower c =
    (case map_of (zip ''ABCDEFGHIJKLMNOPQRSTUVWXYZ'' ''abcdefghijklmnopqrstuvwxyz'') c of
       None \<Rightarrow> c
     | Some l \<Rightarrow> l)"





fun str :: "object_id \<Rightarrow> string" where
  "str (Oid s) = s"

text \<open>The identifier the store generates for its \<open>n\<close>-th insert: \<open>n\<close> in 24 digits.\<close>

fun hex :: "nat \<Rightarrow> nat \<Rightarrow> string" where
  "hex 0 n = []"
| "hex (Suc w) n = hex w (n div 16) @ [''0123456789abcdef'' ! (n mod 16)]"

definition fresh_id :: "nat \<Rightarrow> object_id" where
  "fresh_id n = Oid (hex 24 n)"

subsection \<open>Documents and collections\<close>

text \<open>
  A stored document is the dumped model or the inserted \<^verbatim>\<open>dict\<close> with the key \<^verbatim>\<open>_id\<close>
  (\<open>oid\<close>). The handlers replace the identifier by its string before they answer, which
  changes the type of \<open>oid\<close>.
\<close>

datatype body = ToyDoc toy_data | OrderDoc "order_item order_data"

record 'i document =
  oid :: 'i
  content :: body

text \<open>The top-level keys of a document that hold a string.\<close>

fun str_field :: "body \<Rightarrow> string \<Rightarrow> string option" where
  "str_field (ToyDoc t) k =
     (if k = ''name'' then Some (name t)
      else if k = ''description'' then description t
      else if k = ''category'' then Some (category t)
      else if k = ''image'' then image_url t
      else None)"
| "str_field (OrderDoc r) k =
     (if k = ''customer_name'' then Some (customer_name r)
      else if k = ''customer_email'' then Some (customer_email r)
      else if k = ''customer_address'' then Some (customer_address r)
      else if k = ''notes'' then order_notes r
      else None)"

text \<open>
  The store behind the handle \<^verbatim>\<open>db\<close>: its collections by name, the number of inserts so
  far, the outcomes of the coming inserts as the environment decides them (\<open>True\<close>: the
  insert fails; none left: it succeeds), the store's regular-expression search (pattern,
  options, subject), and the operations requested of it so far. \<^verbatim>\<open>db\<close> is \<open>None\<close> when
  no connection was configured.
\<close>

datatype call = Insert string | Find string | FindOne string | Count string

record store =
  colls :: "string \<Rightarrow> object_id document list"
  counter :: nat
  faults :: "bool list"
  regex :: "string \<Rightarrow> string \<Rightarrow> string \<Rightarrow> bool"
  calls :: "call list"

type_synonym database = "store option"

subsection \<open>Filters\<close>

text \<open>
  The values of the filter dictionaries the handlers build: a string (equality) or
  \<^verbatim>\<open>{"$regex": p, "$options": o}\<close>. A document matches a filter when it matches every
  entry.
\<close>

datatype cond = Eq string | Regex string string

type_synonym filter_dict = "(string \<times> cond) list"

fun matches_cond :: "store \<Rightarrow> body \<Rightarrow> string \<times> cond \<Rightarrow> bool" where
  "matches_cond st d (k, Eq v) = (str_field d k = Some v)"
| "matches_cond st d (k, Regex p opts) =
     (case str_field d k of None \<Rightarrow> False | Some s \<Rightarrow> regex st p opts s)"

definition matches :: "store \<Rightarrow> filter_dict \<Rightarrow> object_id document \<Rightarrow> bool" where
  "matches st fd d = list_all (matches_cond st (content d)) fd"

subsection \<open>Store client operations used by main.py\<close>

text \<open>\<^verbatim>\<open>db[coll].count_documents({})\<close>\<close>

definition count_documents :: "store \<Rightarrow> string \<Rightarrow> nat \<times> store" where
  "count_documents st coll = (length (colls st coll), st\<lparr>calls := calls st @ [Count coll]\<rparr>)"


subsection \<open>The gateway (database.py)\<close>

text \<open>
  Modelled from the spec: \<^verbatim>\<open>create_document\<close> of \<^verbatim>\<open>database.py\<close>, which is not among the
  sources. "Inserts one document, returns the generated identifier as an opaque string.
  Fails with StoreUnavailable if no connection was established."
\<close>

definition create_document :: "database \<Rightarrow> string \<Rightarrow> body \<Rightarrow> (error + string) \<times> database" where
  "create_document db coll data =
    (case db of
       None \<Rightarrow> (Inl StoreError, None)
     | Some st \<Rightarrow>
        (let st = st\<lparr>calls := calls st @ [Insert coll]\<rparr> in
         case faults st of
           True # fs \<Rightarrow> (Inl StoreError, Some (st\<lparr>faults := fs\<rparr>))
         | _ \<Rightarrow>
            (let i = fresh_id (counter st) in
             (Inr (str i),
              Some (st\<lparr>colls := (colls st)(coll := colls st coll @ [\<lparr>oid = i, content = data\<rparr>]),
                        counter := Suc (counter st),
                        faults := tl (faults st)\<rparr>)))))"

text \<open>
  Modelled from the spec: \<^verbatim>\<open>get_documents\<close> of \<^verbatim>\<open>database.py\<close>, which is not among the
  sources. "Returns at most \<^verbatim>\<open>limit\<close> documents matching [the] filter; returns an empty
  sequence (never an error) if the store is unavailable."
\<close>

definition get_documents ::
  "database \<Rightarrow> string \<Rightarrow> filter_dict \<Rightarrow> nat \<Rightarrow> object_id document list \<times> database" where
  "get_documents db coll fd limit =
    (case db of
       None \<Rightarrow> ([], None)
     | Some st \<Rightarrow>
        (take limit (filter (matches st fd) (colls st coll)),
         Some (st\<lparr>calls := calls st @ [Find coll]\<rparr>)))"

section \<open>The handlers (main.py)\<close>

text \<open>\<^verbatim>\<open>t["_id"] = str(t.get("_id"))\<close>\<close>

definition stringify :: "object_id document \<Rightarrow> string document" where
  "stringify t = \<lparr>oid = str (oid t), content = content t\<rparr>"

subsection \<open>Toys\<close>

text \<open>
  \<^verbatim>\<open>GET /api/toys\<close>. The tests \<^verbatim>\<open>if category:\<close> and \<^verbatim>\<open>if q:\<close> are false for \<^verbatim>\<open>None\<close> and
  for the empty string. The parameter \<^verbatim>\<open>category\<close> is \<open>category'\<close> here.
\<close>

definition list_toys ::
  "database \<Rightarrow> string option \<Rightarrow> string option \<Rightarrow> string document list \<times> database" where
  "list_toys db category' q =
    (case db of
       None \<Rightarrow> ([], db)
     | Some _ \<Rightarrow>
        (let filter_dict = [];
             filter_dict =
               (case category' of
                  Some c \<Rightarrow>
                    if c \<noteq> [] then AList.update ''category'' (Eq c) filter_dict
                    else filter_dict
                | None \<Rightarrow> filter_dict);
             filter_dict =
               (case q of
                  Some p \<Rightarrow>
                    if p \<noteq> [] then AList.update ''name'' (Regex p ''i'') filter_dict
                    else filter_dict
                | None \<Rightarrow> filter_dict);
             (toys, db') = get_documents db ''toy'' filter_dict 100
         in (map stringify toys, db')))"

text \<open>\<^verbatim>\<open>POST /api/toys\<close>: the handler, given the payload the framework has validated.\<close>

definition create_toy :: "database \<Rightarrow> toy_data \<Rightarrow> (error + string) \<times> database" where
  "create_toy db payload =
    (case db of
       None \<Rightarrow> (Inl (HTTPException 503 ''Database unavailable''), db)
     | Some _ \<Rightarrow>
        (case Toy payload of
           Inl e \<Rightarrow> (Inl e, db)
         | Inr toy \<Rightarrow> create_document db ''toy'' (ToyDoc toy)))"

text \<open>
  The endpoint: the framework validates the body against \<^verbatim>\<open>CreateToy\<close>, the type of the
  handler's parameter, and calls the handler only with a valid payload.
\<close>

definition post_toys :: "database \<Rightarrow> toy_body \<Rightarrow> (error + string) \<times> database" where
  "post_toys db b =
    (case CreateToy b of
       None \<Rightarrow> (Inl RequestValidationError, db)
     | Some payload \<Rightarrow> create_toy db payload)"


subsection \<open>Orders\<close>

text \<open>\<^verbatim>\<open>POST /api/orders\<close>: the handler, given the payload the framework has validated.\<close>

definition create_order ::
  "(string \<Rightarrow> string option) \<Rightarrow> database \<Rightarrow> item_dict order_data \<Rightarrow> (error + string) \<times> database"
  where
  "create_order EmailStr db payload =
    (case db of
       None \<Rightarrow> (Inl (HTTPException 503 ''Database unavailable''), db)
     | Some _ \<Rightarrow>
        if items payload = []
        then (Inl (HTTPException 400 ''Order must contain at least one item''), db)
        else
          (case Order EmailStr payload of
             Inl e \<Rightarrow> (Inl e, db)
           | Inr order \<Rightarrow> create_document db ''order'' (OrderDoc order)))"

definition post_orders ::
  "(string \<Rightarrow> string option) \<Rightarrow> database \<Rightarrow> order_body \<Rightarrow> (error + string) \<times> database" where
  "post_orders EmailStr db b =
    (case CreateOrder b of
       None \<Rightarrow> (Inl RequestValidationError, db)
     | Some payload \<Rightarrow> create_order EmailStr db payload)"

subsection \<open>Seeding\<close>

text \<open>
  The sample toys. A float literal of the source is the double nearest to it: 19.99,
  14.99 and 49.99 are the prices below, and 4.7, 4.6 and 4.8 the ratings, each an
  integer over a power of two.
\<close>

definition samples :: "toy_data list" where
  "samples =
    [\<lparr>name = ''Cuddly Bear'', description = Some ''Super soft plush bear.'',
      price = Finite (5626684784446013 / 2 ^ 48), category = ''Plush'',
      image_url = Some ''https://images.unsplash.com/photo-1612198185720-2d3a9c5a4f8e'',
      rating = Some (Finite (5291729562160333 / 2 ^ 50)), in_stock = True\<rparr>,
     \<lparr>name = ''Rainbow Stacking Rings'',
      description = Some ''Classic stacking rings for toddlers.'',
      price = Finite (8438619801785467 / 2 ^ 49), category = ''Educational'',
      image_url = Some ''https://images.unsplash.com/photo-1582582621959-48f5f1d7fca1'',
      rating = Some (Finite (2589569785738035 / 2 ^ 49)), in_stock = True\<rparr>,
     \<lparr>name = ''STEM Robot Kit'', description = Some ''Build and program your own robot.'',
      price = Finite (7035467042882847 / 2 ^ 47), category = ''STEM'',
      image_url = Some ''https://images.unsplash.com/photo-1581090464777-f3220bbe1b8b'',
      rating = Some (Finite (5404319552844595 / 2 ^ 50)), in_stock = True\<rparr>]"

text \<open>
  The loop \<^verbatim>\<open>for s in samples: try: create_document("toy", s); inserted += 1
  except Exception: pass\<close>.
\<close>

fun seed_loop :: "database \<Rightarrow> toy_data list \<Rightarrow> nat \<Rightarrow> nat \<times> database" where
  "seed_loop db [] inserted = (inserted, db)"
| "seed_loop db (s # ss) inserted =
     (case create_document db ''toy'' (ToyDoc s) of
        (Inl e, db') \<Rightarrow> seed_loop db' ss inserted
      | (Inr i, db') \<Rightarrow> seed_loop db' ss (inserted + 1))"

text \<open>
  The answers of \<^verbatim>\<open>GET /api/seed\<close>: \<^verbatim>\<open>{"status": "Database unavailable"}\<close>,
  \<^verbatim>\<open>{"status": "already-seeded", "count": count}\<close>, \<^verbatim>\<open>{"status": "seeded", "inserted":
  inserted}\<close>.
\<close>

datatype seed_response = DatabaseUnavailable | AlreadySeeded nat | Seeded nat

definition seed_sample_toys :: "database \<Rightarrow> seed_response \<times> database" where
  "seed_sample_toys db =
    (case db of
       None \<Rightarrow> (DatabaseUnavailable, db)
     | Some st \<Rightarrow>
        (let (count, st') = count_documents st ''toy'' in
         if count > 0 then (AlreadySeeded count, Some st')
         else
           (let (inserted, db') = seed_loop (Some st') samples 0
            in (Seeded inserted, db'))))"

section \<open>Worked inputs\<close>

text \<open>
  The notion of the listing's search as the specification words it: \<open>q\<close> occurs in the
  name as a substring, letter case ignored.
\<close>

fun starts_with :: "string \<Rightarrow> string \<Rightarrow> bool" where
  "starts_with [] s = True"
| "starts_with (p # ps) [] = False"
| "starts_with (p # ps) (c # cs) = (p = c \<and> starts_with ps cs)"

fun contains :: "string \<Rightarrow> string \<Rightarrow> bool" where
  "contains p [] = starts_with p []"
| "contains p (c # cs) = (starts_with p (c # cs) \<or> contains p cs)"

definition contains_ci :: "string \<Rightarrow> string \<Rightarrow> bool" where
  "contains_ci q s = contains (map lower q) (map lower s)"

text \<open>
  A regular-expression search for the patterns made of literal characters and the
  wildcard \<^verbatim>\<open>.\<close> (any character but a newline); the option \<^verbatim>\<open>i\<close> ignores letter case.
\<close>

fun match_here :: "bool \<Rightarrow> string \<Rightarrow> string \<Rightarrow> bool" where
  "match_here ci [] s = True"
| "match_here ci (p # ps) [] = False"
| "match_here ci (p # ps) (c # cs) =
     (((p = CHR ''.'' \<and> c \<noteq> CHR 0x0A) \<or> (if ci then lower p = lower c else p = c))
      \<and> match_here ci ps cs)"

fun search :: "bool \<Rightarrow> string \<Rightarrow> string \<Rightarrow> bool" where
  "search ci p [] = match_here ci p []"
| "search ci p (c # cs) = (match_here ci p (c # cs) \<or> search ci p cs)"

definition wildcard_regex :: "string \<Rightarrow> string \<Rightarrow> string \<Rightarrow> bool" where
  "wildcard_regex p opts s = search (CHR ''i'' \<in> set opts) p s"

text \<open>An address validator that accepts, unchanged, the strings with an \<^verbatim>\<open>@\<close>.\<close>

definition at_sign_email :: "string \<Rightarrow> string option" where
  "at_sign_email s = (if CHR ''@'' \<in> set s then Some s else None)"

text \<open>A store with no documents, and a store that holds one of the sample toys.\<close>

definition empty_store :: store where
  "empty_store =
    \<lparr>colls = (\<lambda>_. []), counter = 0, faults = [], regex = wildcard_regex, calls = []\<rparr>"

definition robot_doc :: "object_id document" where
  "robot_doc = \<lparr>oid = Oid ''000000000000000000000002'', content = ToyDoc (samples ! 2)\<rparr>"

definition robot_store :: store where
  "robot_store =
    \<lparr>colls = (\<lambda>_. [])(''toy'' := [robot_doc]), counter = 3, faults = [],
     regex = wildcard_regex, calls = []\<rparr>"

text \<open>A toy body and an order body that pass every validation.\<close>

definition robot_body :: toy_body where
  "robot_body =
    \<lparr>body_name = Val ''Robot'', body_description = Absent, body_price = Val (Finite 10),
     body_category = Val ''STEM'', body_image = Null, body_rating = Absent,
     body_in_stock = Absent\<rparr>"

definition robot_item :: item_dict where
  "robot_item =
    \<lparr>dict_toy_id = Val ''000000000000000000000002'', dict_name = Val ''STEM Robot Kit'',
     dict_price = Val (Finite 1), dict_quantity = Val 2, dict_image = Absent\<rparr>"

definition order_body0 :: order_body where
  "order_body0 =
    \<lparr>body_customer_name = Val ''Ada'', body_customer_email = Val ''ada@example.org'',
     body_customer_address = Val ''1 Main Street'', body_items = Val [robot_item],
     body_subtotal = Val (Finite 10), body_shipping = Val (Finite 5),
     body_total = Val (Finite 100), body_notes = Absent\<rparr>"

text \<open>The order that the \<^verbatim>\<open>Order\<close> schema makes of \<open>order_body0\<close>.\<close>

definition robot_order :: "order_item order_data" where
  "robot_order =
    \<lparr>customer_name = ''Ada'', customer_email = ''ada@example.org'',
     customer_address = ''1 Main Street'',
     items = [\<lparr>toy_id = ''000000000000000000000002'', item_name = ''STEM Robot Kit'',
               item_price = Finite 1, quantity = 2, item_image = None\<rparr>],
     subtotal = Finite 10, shipping = Finite 5, total_due = Finite 100, order_notes = None\<rparr>"

section \<open>Properties\<close>

subsection \<open>Validation lemmas\<close>

lemma negative_not_ge0: "negative p \<Longrightarrow> \<not> ge0 p"
  by (cases p) auto

lemma CreateToy_price: "CreateToy b = Some p \<Longrightarrow> body_price b = Val (price p)"
  by (cases "body_price b") (auto simp: CreateToy_def split: Option.bind_splits)

lemma CreateToy_missing_name: "body_name b = Absent \<Longrightarrow> CreateToy b = None"
  by (simp add: CreateToy_def)

subsection \<open>Creating a toy\<close>

text \<open>
  C1 (as amended). A request whose body has no \<^verbatim>\<open>name\<close> fails with the request validation
  error and leaves the store handle as it was. A request whose \<^verbatim>\<open>price\<close> is negative
  fails and leaves the store handle as it was; while the store is available the failure is
  a validation error (of the request or of the \<^verbatim>\<open>Toy\<close> schema).
\<close>

theorem post_toys_rejects:
  "(body_name b = Absent \<longrightarrow> post_toys db b = (Inl RequestValidationError, db)) \<and>
   (body_price b = Val p \<and> negative p \<longrightarrow>
     (\<exists>e. post_toys db b = (Inl e, db) \<and>
          (db \<noteq> None \<longrightarrow> e = RequestValidationError \<or> e = ValidationError)))"
proof (intro conjI impI)
  assume "body_name b = Absent"
  then show "post_toys db b = (Inl RequestValidationError, db)"
    by (simp add: post_toys_def CreateToy_missing_name)
next
  assume h: "body_price b = Val p \<and> negative p"
  show "\<exists>e. post_toys db b = (Inl e, db) \<and>
          (db \<noteq> None \<longrightarrow> e = RequestValidationError \<or> e = ValidationError)"
  proof (cases "CreateToy b")
    case None
    then show ?thesis by (simp add: post_toys_def)
  next
    case (Some payload)
    with h have "price payload = p" using CreateToy_price by fastforce
    with h have "Toy payload = Inl ValidationError"
      by (simp add: Toy_def negative_not_ge0)
    with Some show ?thesis
      by (cases db) (simp_all add: post_toys_def create_toy_def)
  qed
qed

text \<open>C1, witness: a body without a name, and a body with the price -5.\<close>

theorem post_toys_rejects_witness:
  "post_toys (Some empty_store) (robot_body\<lparr>body_name := Absent\<rparr>)
     = (Inl RequestValidationError, Some empty_store) \<and>
   negative (Finite (-5)) \<and>
   post_toys (Some empty_store) (robot_body\<lparr>body_price := Val (Finite (-5))\<rparr>)
     = (Inl ValidationError, Some empty_store)"
  using post_toys_rejects [where b = "robot_body\<lparr>body_name := Absent\<rparr>" and db = "Some empty_store"]
    post_toys_rejects [where b = "robot_body\<lparr>body_price := Val (Finite (-5))\<rparr>" and p = "Finite (-5)"
      and db = "Some empty_store"]
  by (simp add: robot_body_def post_toys_def CreateToy_def create_toy_def Toy_def)

text \<open>
  C1 as stated fails: a body whose \<^verbatim>\<open>name\<close> is the empty string is accepted, and the toy is
  inserted.
\<close>

theorem post_toys_empty_name_counterexample:
  "body_name (robot_body\<lparr>body_name := Val []\<rparr>) = Val [] \<and>
   (case post_toys (Some empty_store) (robot_body\<lparr>body_name := Val []\<rparr>) of
      (Inr i, Some st) \<Rightarrow>
        map content (colls st ''toy'') =
          [ToyDoc \<lparr>name = [], description = None, price = Finite 10, category = ''STEM'',
                   image_url = None, rating = Some (Finite 4.5), in_stock = True\<rparr>]
    | _ \<Rightarrow> False)"
  by (simp add: robot_body_def empty_store_def post_toys_def CreateToy_def create_toy_def Toy_def
      create_document_def Let_def)

text \<open>
  C2 (as amended). While the store is unavailable the handler answers 503 for every
  payload, valid for the \<^verbatim>\<open>Toy\<close> schema or not, and so does the endpoint for every body
  that passes the request validation against \<^verbatim>\<open>CreateToy\<close>; the handle stays \<open>None\<close>.
\<close>

theorem create_toy_unavailable:
  "create_toy None payload = (Inl (HTTPException 503 ''Database unavailable''), None) \<and>
   (CreateToy b = Some payload \<longrightarrow>
      post_toys None b = (Inl (HTTPException 503 ''Database unavailable''), None))"
  by (simp add: create_toy_def post_toys_def)

text \<open>C2, witness: a body with a negative price, which the \<^verbatim>\<open>Toy\<close> schema would reject.\<close>

theorem create_toy_unavailable_witness:
  "CreateToy (robot_body\<lparr>body_price := Val (Finite (-5))\<rparr>) =
     Some \<lparr>name = ''Robot'', description = None, price = Finite (-5), category = ''STEM'',
           image_url = None, rating = Some (Finite 4.5), in_stock = True\<rparr> \<and>
   post_toys None (robot_body\<lparr>body_price := Val (Finite (-5))\<rparr>)
     = (Inl (HTTPException 503 ''Database unavailable''), None)"
  using create_toy_unavailable [where payload = "\<lparr>name = ''Robot'', description = None, price = Finite (-5), category = ''STEM'',
           image_url = None, rating = Some (Finite 4.5), in_stock = True\<rparr>" and b = "robot_body\<lparr>body_price := Val (Finite (-5))\<rparr>"]
  by (simp add: robot_body_def CreateToy_def)

text \<open>
  C2 as stated fails: while the store is unavailable, a body without a name is answered
  with the request validation error (422), not with 503.
\<close>

theorem post_toys_unavailable_counterexample:
  "post_toys None (robot_body\<lparr>body_name := Absent\<rparr>) = (Inl RequestValidationError, None) \<and>
   status_code RequestValidationError = 422"
  by (simp add: robot_body_def post_toys_def CreateToy_def)

subsection \<open>Fetching a toy\<close>




subsection \<open>Creating an order\<close>

lemma CreateOrder_items: "CreateOrder b = Some p \<Longrightarrow> body_items b = Val (items p)"
  by (cases "body_items b") (auto simp: CreateOrder_def split: Option.bind_splits)

lemma CreateOrder_email: "CreateOrder b = Some p \<Longrightarrow> body_customer_email b = Val (customer_email p)"
  by (cases "body_customer_email b") (auto simp: CreateOrder_def split: Option.bind_splits)

text \<open>
  C4 (as amended). A request whose \<^verbatim>\<open>items\<close> list is empty fails and leaves the store
  handle as it was; when the body passes the request validation and the store is
  available, the failure is the 400 of the handler.
\<close>

theorem post_orders_empty_items:
  "body_items b = Val [] \<Longrightarrow>
   snd (post_orders EmailStr db b) = db \<and>
   (\<exists>e. fst (post_orders EmailStr db b) = Inl e) \<and>
   (CreateOrder b \<noteq> None \<and> db \<noteq> None \<longrightarrow>
      fst (post_orders EmailStr db b)
        = Inl (HTTPException 400 ''Order must contain at least one item''))"
proof (cases "CreateOrder b")
  case None
  then show ?thesis by (simp add: post_orders_def)
next
  case (Some p)
  assume "body_items b = Val []"
  with Some have "items p = []" using CreateOrder_items by fastforce
  with Some show ?thesis
    by (cases db) (simp_all add: post_orders_def create_order_def)
qed

text \<open>C4, witness: the valid order body with its items emptied.\<close>

theorem post_orders_empty_items_witness:
  "body_items (order_body0\<lparr>body_items := Val []\<rparr>) = Val [] \<and>
   post_orders at_sign_email (Some empty_store) (order_body0\<lparr>body_items := Val []\<rparr>)
     = (Inl (HTTPException 400 ''Order must contain at least one item''), Some empty_store)"
  using post_orders_empty_items [of "order_body0\<lparr>body_items := Val []\<rparr>" at_sign_email "Some empty_store"]
  by (simp add: order_body0_def CreateOrder_def post_orders_def create_order_def)

text \<open>
  C4 as stated fails: with an empty \<^verbatim>\<open>items\<close> list the answer is 503 while the store is
  unavailable, and 422 when another required field is missing.
\<close>

theorem post_orders_empty_items_counterexample:
  "post_orders at_sign_email None (order_body0\<lparr>body_items := Val []\<rparr>)
     = (Inl (HTTPException 503 ''Database unavailable''), None) \<and>
   post_orders at_sign_email (Some empty_store)
       (order_body0\<lparr>body_items := Val [], body_customer_name := Absent\<rparr>)
     = (Inl RequestValidationError, Some empty_store) \<and>
   status_code RequestValidationError = 422"
  by (simp add: order_body0_def CreateOrder_def post_orders_def create_order_def)

text \<open>
  A request that passes the request validation and whose \<^verbatim>\<open>customer_email\<close> the address
  validator rejects fails and leaves the store handle as it was; when the store is
  available and the items are not empty, the failure is the \<^verbatim>\<open>ValidationError\<close> that
  \<^verbatim>\<open>Order(...)\<close> raises inside the handler.
\<close>

lemma post_orders_bad_email:
  "CreateOrder b = Some p \<Longrightarrow> EmailStr (customer_email p) = None \<Longrightarrow>
   snd (post_orders EmailStr db b) = db \<and>
   (\<exists>e. fst (post_orders EmailStr db b) = Inl e) \<and>
   (db \<noteq> None \<and> items p \<noteq> [] \<longrightarrow> fst (post_orders EmailStr db b) = Inl ValidationError)"
  by (cases db) (simp_all add: post_orders_def create_order_def Order_def)

text \<open>
  C5, the code at the failing input. The valid order body with the address \<^verbatim>\<open>abc\<close>,
  sent while the store is available: the body passes the request validation, the
  handler's guards pass, and the \<^verbatim>\<open>Order\<close> schema raises its validation error inside
  the handler. Nothing is persisted, as the claim says, but the error is not the
  request validation error that is answered with 422: it leaves the handler uncaught and
  the answer is 500.
\<close>

theorem post_orders_bad_email_answer:
  "at_sign_email ''abc'' = None \<and>
   CreateOrder (order_body0\<lparr>body_customer_email := Val ''abc''\<rparr>) \<noteq> None \<and>
   post_orders at_sign_email (Some empty_store) (order_body0\<lparr>body_customer_email := Val ''abc''\<rparr>)
     = (Inl ValidationError, Some empty_store) \<and>
   status_code ValidationError = 500 \<and>
   status_code RequestValidationError = 422"
proof -
  let ?b = "order_body0\<lparr>body_customer_email := Val ''abc''\<rparr>"
  obtain p where p: "CreateOrder ?b = Some p" "customer_email p = ''abc''" "items p = [robot_item]"
    by (simp add: order_body0_def CreateOrder_def)
  have e: "at_sign_email ''abc'' = None" by (simp add: at_sign_email_def)
  from post_orders_bad_email [of ?b p at_sign_email "Some empty_store"] p e
  show ?thesis by (simp add: prod_eq_iff)
qed

subsection \<open>What an accepted order stores\<close>

lemma insert_accepted:
  "take 1 (faults st) \<noteq> [True] \<Longrightarrow>
   create_document (Some st) coll data =
     (Inr (str (fresh_id (counter st))),
      Some (st\<lparr>calls := calls st @ [Insert coll],
               colls := (colls st)(coll := colls st coll @ [\<lparr>oid = fresh_id (counter st), content = data\<rparr>]),
               counter := Suc (counter st),
               faults := tl (faults st)\<rparr>))"
  by (cases "faults st") (auto simp: create_document_def Let_def split: list.splits bool.splits)

lemma OrderItem_price: "OrderItem d = Some it \<Longrightarrow> required (dict_price d) = Some (item_price it)"
  by (auto simp: OrderItem_def split: Option.bind_splits if_splits)

lemma those_OrderItem_prices:
  "those (map OrderItem ds) = Some its \<Longrightarrow>
   map (Some \<circ> item_price) its = map (required \<circ> dict_price) ds"
proof (induction ds arbitrary: its)
  case Nil
  then show ?case by simp
next
  case (Cons d ds)
  then obtain it rest where "OrderItem d = Some it" "those (map OrderItem ds) = Some rest"
    "its = it # rest"
    by (auto split: option.splits)
  with Cons.IH show ?case by (simp add: OrderItem_price)
qed

lemma Order_fields:
  "Order EmailStr p = Inr order \<Longrightarrow>
   subtotal order = subtotal p \<and> shipping order = shipping p \<and> total_due order = total_due p \<and>
   those (map OrderItem (items p)) = Some (items order)"
  by (auto simp: Order_def split: option.splits if_splits)

text \<open>
  C9 (as amended). While the store is available, a request that passes the request
  validation and the \<^verbatim>\<open>Order\<close> schema and has items goes to persistence with the order
  the schema returned: its \<^verbatim>\<open>subtotal\<close>, \<^verbatim>\<open>shipping\<close>, \<^verbatim>\<open>total\<close> and item prices are the
  payload's, whatever their relation to each other and to the stored toys, and when the
  store accepts the insert the creation succeeds and that order is the new document.
\<close>

theorem create_order_trusts_payload:
  "CreateOrder b = Some p \<Longrightarrow> Order EmailStr p = Inr order \<Longrightarrow> items p \<noteq> [] \<Longrightarrow>
   post_orders EmailStr (Some st) b = create_document (Some st) ''order'' (OrderDoc order) \<and>
   subtotal order = subtotal p \<and> shipping order = shipping p \<and> total_due order = total_due p \<and>
   map (Some \<circ> item_price) (items order) = map (required \<circ> dict_price) (items p) \<and>
   (take 1 (faults st) \<noteq> [True] \<longrightarrow>
      (\<exists>i st'. post_orders EmailStr (Some st) b = (Inr i, Some st') \<and>
         colls st' ''order'' =
           colls st ''order'' @ [\<lparr>oid = fresh_id (counter st), content = OrderDoc order\<rparr>]))"
proof -
  assume b: "CreateOrder b = Some p" and ok: "Order EmailStr p = Inr order" and ne: "items p \<noteq> []"
  have run: "post_orders EmailStr (Some st) b
      = create_document (Some st) ''order'' (OrderDoc order)"
    using b ok ne by (simp add: post_orders_def create_order_def)
  have fields: "subtotal order = subtotal p \<and> shipping order = shipping p \<and>
      total_due order = total_due p"
    using Order_fields [OF ok] by simp
  have prices: "map (Some \<circ> item_price) (items order) = map (required \<circ> dict_price) (items p)"
    using Order_fields [OF ok] those_OrderItem_prices by blast
  have stored: "take 1 (faults st) \<noteq> [True] \<longrightarrow>
      (\<exists>i st'. post_orders EmailStr (Some st) b = (Inr i, Some st') \<and>
         colls st' ''order'' =
           colls st ''order'' @ [\<lparr>oid = fresh_id (counter st), content = OrderDoc order\<rparr>])"
    using run by (simp add: insert_accepted)
  from run fields prices stored show ?thesis by simp
qed

text \<open>
  C9, witness: an order with total 100, subtotal 10 and shipping 5, whose item costs 1
  while the toy in the store costs 49.99 (the double nearest to it).
\<close>

theorem create_order_trusts_payload_witness:
  "(100 :: real) \<noteq> 10 + 5 \<and>
   map (price \<circ> (\<lambda>d. case content d of ToyDoc t \<Rightarrow> t)) (colls robot_store ''toy'')
     = [Finite (7035467042882847 / 2 ^ 47)] \<and>
   (\<exists>i st'. post_orders at_sign_email (Some robot_store) order_body0 = (Inr i, Some st') \<and>
      colls st' ''order'' = [\<lparr>oid = fresh_id 3, content = OrderDoc robot_order\<rparr>])"
proof -
  define p where "p =
    \<lparr>customer_name = ''Ada'', customer_email = ''ada@example.org'',
     customer_address = ''1 Main Street'', items = [robot_item],
     subtotal = Finite 10, shipping = Finite 5, total_due = Finite 100, order_notes = None\<rparr>"
  have p: "CreateOrder order_body0 = Some p"
    by (simp add: p_def order_body0_def CreateOrder_def)
  have ok: "Order at_sign_email p = Inr robot_order"
    by (simp add: p_def Order_def at_sign_email_def OrderItem_def robot_item_def robot_order_def)
  have ne: "items p \<noteq> []" by (simp add: p_def)
  have f: "take 1 (faults robot_store) \<noteq> [True]" by (simp add: robot_store_def)
  have c: "colls robot_store ''order'' = []" "counter robot_store = 3"
    by (simp_all add: robot_store_def)
  have t: "map (price \<circ> (\<lambda>d. case content d of ToyDoc t \<Rightarrow> t)) (colls robot_store ''toy'')
     = [Finite (7035467042882847 / 2 ^ 47)]"
    by (simp add: robot_store_def robot_doc_def samples_def)
  from create_order_trusts_payload [OF p ok ne, of robot_store] f
  have "\<exists>i st'. post_orders at_sign_email (Some robot_store) order_body0 = (Inr i, Some st') \<and>
      colls st' ''order'' =
        colls robot_store ''order'' @
          [\<lparr>oid = fresh_id (counter robot_store), content = OrderDoc robot_order\<rparr>]"
    by blast
  with c t show ?thesis by simp
qed

text \<open>
  C9 as stated fails: while the store is unavailable, a request that passes the
  \<^verbatim>\<open>Order\<close> schema and has items is answered with 503.
\<close>

theorem create_order_unavailable_counterexample:
  "(case CreateOrder order_body0 of
      Some p \<Rightarrow> items p \<noteq> [] \<and> Order at_sign_email p = Inr robot_order
    | None \<Rightarrow> False) \<and>
   post_orders at_sign_email None order_body0
     = (Inl (HTTPException 503 ''Database unavailable''), None)"
  by (simp add: order_body0_def CreateOrder_def Order_def at_sign_email_def OrderItem_def
      robot_item_def robot_order_def post_orders_def create_order_def)

subsection \<open>Seeding\<close>

lemma take_tl_faults: "True \<notin> set (take (Suc k) fs) \<Longrightarrow> True \<notin> set (take k (tl fs))"
  by (cases fs) auto

lemma head_accepted: "True \<notin> set (take (Suc k) fs) \<Longrightarrow> take 1 fs \<noteq> [True]"
  by (cases fs) auto

lemma seed_loop_all_inserted:
  "True \<notin> set (take (length ss) (faults st)) \<Longrightarrow>
   \<exists>st'. seed_loop (Some st) ss n = (n + length ss, Some st') \<and>
     map content (colls st' ''toy'') = map content (colls st ''toy'') @ map ToyDoc ss"
proof (induction ss arbitrary: st n)
  case Nil
  then show ?case by simp
next
  case (Cons s ss)
  let ?st1 = "st\<lparr>calls := calls st @ [Insert ''toy''],
      colls := (colls st)(''toy'' := colls st ''toy'' @ [\<lparr>oid = fresh_id (counter st), content = ToyDoc s\<rparr>]),
      counter := Suc (counter st), faults := tl (faults st)\<rparr>"
  from Cons.prems have acc: "take 1 (faults st) \<noteq> [True]"
    using head_accepted by fastforce
  from Cons.prems have "True \<notin> set (take (length ss) (faults ?st1))"
    using take_tl_faults by fastforce
  from Cons.IH [OF this, of "n + 1"] obtain st' where
    st': "seed_loop (Some ?st1) ss (n + 1) = (n + 1 + length ss, Some st')"
      "map content (colls st' ''toy'') = map content (colls ?st1 ''toy'') @ map ToyDoc ss"
    by blast
  have "seed_loop (Some st) (s # ss) n = seed_loop (Some ?st1) ss (n + 1)"
    by (simp add: insert_accepted [OF acc])
  with st' show ?case by simp
qed

lemma seed_already:
  "colls st ''toy'' \<noteq> [] \<Longrightarrow>
   seed_sample_toys (Some st)
     = (AlreadySeeded (length (colls st ''toy'')), Some (st\<lparr>calls := calls st @ [Count ''toy'']\<rparr>))"
  by (simp add: seed_sample_toys_def count_documents_def)

text \<open>
  C8. With the store available: when the toy collection is not empty, seeding reports
  already-seeded with the count and does nothing to the store but ask for the count. When
  the collection is empty and the three inserts succeed, seeding reports three inserted,
  the collection then holds exactly the three samples, and seeding again reports
  already-seeded with 3 and again only asks for the count.
\<close>

theorem seed_sample_toys_idempotent:
  "(colls st ''toy'' \<noteq> [] \<longrightarrow>
      seed_sample_toys (Some st)
        = (AlreadySeeded (length (colls st ''toy'')),
           Some (st\<lparr>calls := calls st @ [Count ''toy'']\<rparr>))) \<and>
   (colls st ''toy'' = [] \<and> True \<notin> set (take 3 (faults st)) \<longrightarrow>
      (\<exists>st'. seed_sample_toys (Some st) = (Seeded 3, Some st') \<and>
         map content (colls st' ''toy'') = map ToyDoc samples \<and>
         length (colls st' ''toy'') = 3 \<and>
         seed_sample_toys (Some st')
           = (AlreadySeeded 3, Some (st'\<lparr>calls := calls st' @ [Count ''toy'']\<rparr>))))"
proof (intro conjI impI)
  assume "colls st ''toy'' \<noteq> []"
  then show "seed_sample_toys (Some st)
        = (AlreadySeeded (length (colls st ''toy'')),
           Some (st\<lparr>calls := calls st @ [Count ''toy'']\<rparr>))"
    by (rule seed_already)
next
  assume h: "colls st ''toy'' = [] \<and> True \<notin> set (take 3 (faults st))"
  let ?st0 = "st\<lparr>calls := calls st @ [Count ''toy'']\<rparr>"
  have len: "length samples = 3" by (simp add: samples_def)
  from h len have "True \<notin> set (take (length samples) (faults ?st0))" by simp
  from seed_loop_all_inserted [OF this, of 0] obtain st' where
    st': "seed_loop (Some ?st0) samples 0 = (0 + length samples, Some st')"
      "map content (colls st' ''toy'') = map content (colls ?st0 ''toy'') @ map ToyDoc samples"
    by blast
  from h st' len have run: "seed_sample_toys (Some st) = (Seeded 3, Some st')"
    by (simp add: seed_sample_toys_def count_documents_def)
  from h st' have docs: "map content (colls st' ''toy'') = map ToyDoc samples" by simp
  then have "length (map content (colls st' ''toy'')) = length (map ToyDoc samples)" by simp
  with len have l3: "length (colls st' ''toy'') = 3" by simp
  then have "colls st' ''toy'' \<noteq> []" by auto
  from seed_already [OF this] l3 have again: "seed_sample_toys (Some st')
      = (AlreadySeeded 3, Some (st'\<lparr>calls := calls st' @ [Count ''toy'']\<rparr>))"
    by simp
  from run docs l3 again show "\<exists>st'. seed_sample_toys (Some st) = (Seeded 3, Some st') \<and>
         map content (colls st' ''toy'') = map ToyDoc samples \<and>
         length (colls st' ''toy'') = 3 \<and>
         seed_sample_toys (Some st')
           = (AlreadySeeded 3, Some (st'\<lparr>calls := calls st' @ [Count ''toy'']\<rparr>))"
    by blast
qed

text \<open>C8, witness: a store that holds one toy, and the empty store.\<close>

theorem seed_sample_toys_idempotent_witness:
  "colls robot_store ''toy'' \<noteq> [] \<and>
   seed_sample_toys (Some robot_store)
     = (AlreadySeeded 1, Some (robot_store\<lparr>calls := [Count ''toy'']\<rparr>)) \<and>
   colls empty_store ''toy'' = [] \<and> True \<notin> set (take 3 (faults empty_store)) \<and>
   (\<exists>st'. seed_sample_toys (Some empty_store) = (Seeded 3, Some st') \<and>
      map content (colls st' ''toy'') = map ToyDoc samples \<and>
      seed_sample_toys (Some st')
        = (AlreadySeeded 3, Some (st'\<lparr>calls := calls st' @ [Count ''toy'']\<rparr>)))"
proof -
  have a: "colls robot_store ''toy'' \<noteq> []" "length (colls robot_store ''toy'') = 1"
    "calls robot_store = []"
    by (simp_all add: robot_store_def)
  have b: "colls empty_store ''toy'' = []" "True \<notin> set (take 3 (faults empty_store))"
    by (simp_all add: empty_store_def)
  from seed_sample_toys_idempotent [of robot_store] a
  have 1: "seed_sample_toys (Some robot_store)
     = (AlreadySeeded 1, Some (robot_store\<lparr>calls := [Count ''toy'']\<rparr>))"
    by simp
  from seed_sample_toys_idempotent [of empty_store] b
  have 2: "\<exists>st'. seed_sample_toys (Some empty_store) = (Seeded 3, Some st') \<and>
      map content (colls st' ''toy'') = map ToyDoc samples \<and>
      seed_sample_toys (Some st')
        = (AlreadySeeded 3, Some (st'\<lparr>calls := calls st' @ [Count ''toy'']\<rparr>))"
    by blast
  from a b 1 2 show ?thesis by blast
qed

subsection \<open>Listing toys\<close>

text \<open>
  C7. The listing holds at most 100 documents, whatever the store holds and whatever the
  parameters are.
\<close>

theorem list_toys_at_most_100: "length (fst (list_toys db category' q)) \<le> 100"
  by (cases db) (simp_all add: list_toys_def get_documents_def Let_def)

text \<open>
  C10. A \<^verbatim>\<open>category\<close> or \<^verbatim>\<open>q\<close> parameter that is the empty string gives the answer, and
  leaves the store, exactly as the absent parameter does; with both empty the answer is
  the first 100 documents of the collection, unfiltered.
\<close>

theorem list_toys_empty_parameter:
  "list_toys db (Some []) q = list_toys db None q \<and>
   list_toys db category' (Some []) = list_toys db category' None \<and>
   list_toys (Some st) (Some []) (Some [])
     = (map stringify (take 100 (colls st ''toy'')),
        Some (st\<lparr>calls := calls st @ [Find ''toy'']\<rparr>))"
  by (cases db) (simp_all add: list_toys_def get_documents_def matches_def Let_def)

text \<open>
  On a pattern without the wildcard, \<open>wildcard_regex\<close> with the option \<^verbatim>\<open>i\<close> is the
  search for a substring, letter case ignored.
\<close>

lemma match_here_literal:
  "CHR ''.'' \<notin> set p \<Longrightarrow> match_here True p s \<Longrightarrow> starts_with (map lower p) (map lower s)"
  by (induction True p s rule: match_here.induct) auto

lemma search_literal:
  "CHR ''.'' \<notin> set p \<Longrightarrow> search True p s \<Longrightarrow> contains (map lower p) (map lower s)"
proof (induction s)
  case Nil
  then show ?case using match_here_literal [of p "[]"] by simp
next
  case (Cons c cs)
  then show ?case using match_here_literal [of p "c # cs"] by auto
qed

lemma wildcard_regex_literal:
  "CHR ''.'' \<notin> set p \<Longrightarrow> wildcard_regex p ''i'' s \<Longrightarrow> contains_ci p s"
  by (simp add: wildcard_regex_def contains_ci_def search_literal)

lemma content_stringify: "content (stringify t) = content t"
  by (simp add: stringify_def)

text \<open>
  C6 (as amended). With the store available, a document is in the listing only if it
  satisfies both given filters: its \<^verbatim>\<open>category\<close> equals the category parameter exactly,
  and its \<^verbatim>\<open>name\<close> matches \<open>q\<close> in the store's regular-expression search with the option
  \<^verbatim>\<open>i\<close>. Where that search of \<open>q\<close> finds only strings that contain \<open>q\<close>, letter case
  ignored, the name contains \<open>q\<close> so.
\<close>

theorem list_toys_filters:
  "d \<in> set (fst (list_toys (Some st) category' q)) \<Longrightarrow>
   (\<forall>c. category' = Some c \<and> c \<noteq> [] \<longrightarrow> str_field (content d) ''category'' = Some c) \<and>
   (\<forall>p. q = Some p \<and> p \<noteq> [] \<longrightarrow>
      (\<exists>n. str_field (content d) ''name'' = Some n \<and> regex st p ''i'' n \<and>
         ((\<forall>s. regex st p ''i'' s \<longrightarrow> contains_ci p s) \<longrightarrow> contains_ci p n)))"
proof -
  assume "d \<in> set (fst (list_toys (Some st) category' q))"
  then obtain t where t: "d = stringify t"
    and m: "matches st
       ((case category' of Some c \<Rightarrow> if c \<noteq> [] then [(''category'', Eq c)] else [] | None \<Rightarrow> []) @
        (case q of Some p \<Rightarrow> if p \<noteq> [] then [(''name'', Regex p ''i'')] else [] | None \<Rightarrow> [])) t"
    by (auto simp: list_toys_def get_documents_def Let_def dest!: in_set_takeD
        split: option.splits if_splits)
  have cat: "\<forall>c. category' = Some c \<and> c \<noteq> [] \<longrightarrow> str_field (content d) ''category'' = Some c"
    using m t by (auto simp: matches_def content_stringify)
  have nm: "\<forall>p. q = Some p \<and> p \<noteq> [] \<longrightarrow>
      (\<exists>n. str_field (content d) ''name'' = Some n \<and> regex st p ''i'' n)"
    using m t by (auto simp: matches_def content_stringify split: option.splits)
  from cat nm show ?thesis by blast
qed

text \<open>C6, witness: the sample robot kit, listed for the category STEM and \<open>q\<close> = robot.\<close>

theorem list_toys_filters_witness:
  "stringify robot_doc \<in> set (fst (list_toys (Some robot_store) (Some ''STEM'') (Some ''robot''))) \<and>
   str_field (content (stringify robot_doc)) ''category'' = Some ''STEM'' \<and>
   str_field (content (stringify robot_doc)) ''name'' = Some ''STEM Robot Kit'' \<and>
   regex robot_store ''robot'' ''i'' ''STEM Robot Kit'' \<and>
   contains_ci ''robot'' ''STEM Robot Kit''"
proof -
  have nm: "str_field (content (stringify robot_doc)) ''name'' = Some ''STEM Robot Kit''"
    by (simp add: stringify_def robot_doc_def samples_def)
  have ct: "str_field (content (stringify robot_doc)) ''category'' = Some ''STEM''"
    by (simp add: stringify_def robot_doc_def samples_def)
  have rx: "regex robot_store ''robot'' ''i'' ''STEM Robot Kit''"
    by (simp add: robot_store_def wildcard_regex_def lower_def)
  have "matches robot_store [(''category'', Eq ''STEM''), (''name'', Regex ''robot'' ''i'')] robot_doc"
    using nm ct rx by (simp add: matches_def stringify_def)
  then have mem: "stringify robot_doc
      \<in> set (fst (list_toys (Some robot_store) (Some ''STEM'') (Some ''robot'')))"
    by (simp add: list_toys_def get_documents_def Let_def robot_store_def)
  have lit: "\<forall>s. regex robot_store ''robot'' ''i'' s \<longrightarrow> contains_ci ''robot'' s"
    using wildcard_regex_literal [of "''robot''"] by (simp add: robot_store_def)
  from list_toys_filters [OF mem] nm lit have "contains_ci ''robot'' ''STEM Robot Kit''"
    by auto
  with mem nm ct rx show ?thesis by blast
qed

text \<open>
  C6 as stated fails: \<open>q\<close> is a regular expression to the store, so \<^verbatim>\<open>r.bot\<close> lists the toy
  named STEM Robot Kit, whose name does not contain \<^verbatim>\<open>r.bot\<close>.
\<close>

theorem list_toys_regex_counterexample:
  "map content (fst (list_toys (Some robot_store) None (Some ''r.bot''))) = [ToyDoc (samples ! 2)] \<and>
   name (samples ! 2) = ''STEM Robot Kit'' \<and>
   \<not> contains_ci ''r.bot'' ''STEM Robot Kit''"
proof -
  have rx: "regex robot_store ''r.bot'' ''i'' ''STEM Robot Kit''"
    by (simp add: robot_store_def wildcard_regex_def lower_def)
  have nm: "name (samples ! 2) = ''STEM Robot Kit''"
    by (simp add: samples_def)
  have "matches robot_store [(''name'', Regex ''r.bot'' ''i'')] robot_doc"
    using rx nm by (simp add: matches_def robot_doc_def)
  then have 1: "map content (fst (list_toys (Some robot_store) None (Some ''r.bot'')))
      = [ToyDoc (samples ! 2)]"
    by (simp add: list_toys_def get_documents_def Let_def robot_store_def stringify_def robot_doc_def)
  have 2: "\<not> contains_ci ''r.bot'' ''STEM Robot Kit''"
    by (simp add: contains_ci_def lower_def)
  from 1 nm 2 show ?thesis by simp
qed

end
